theory Spec2Isabelle
  imports Complex_Main
begin

section \<open>Numbers and optional fields\<close>

text \<open>
  A JavaScript \<^verbatim>\<open>number\<close> is modelled as a \<^typ>\<open>real\<close>: the rounding of IEEE doubles
  is not modelled. A field reached through optional chaining (\<^verbatim>\<open>pair.liquidity?.usd\<close>)
  is a \<^typ>\<open>real option\<close>, \<^term>\<open>None\<close> standing for \<^verbatim>\<open>undefined\<close> at any link of the
  chain. The idiom \<^verbatim>\<open>x || d\<close> yields \<^verbatim>\<open>d\<close> when \<^verbatim>\<open>x\<close> is undefined or zero.
\<close>

definition or_num :: "real option \<Rightarrow> real \<Rightarrow> real" where
  "or_num v d = (case v of None \<Rightarrow> d | Some x \<Rightarrow> (if x = 0 then d else x))"

section \<open>Data model\<close>

text \<open>
  The type declarations (\<^verbatim>\<open>./types\<close>) are not part of the sources at hand; the records
  hold the fields that the functions below read or write, under the names the code uses.
  Counts of holders and token amounts are natural numbers.
\<close>

record DexScreenerPair =
  baseToken_address :: string
  baseToken_symbol :: string
  baseToken_name :: string
  pairAddress :: string
  dexId :: string
  chainId :: string
  pairCreatedAt :: real
  liquidity_usd :: "real option"
  marketCap :: "real option"
  volume_m5 :: "real option"
  volume_h1 :: "real option"
  priceChange_m5 :: "real option"
  txns_m5_buys :: "real option"
  txns_m5_sells :: "real option"
  info_socials :: "string list option"
  info_websites :: "string list option"
  info_imageUrl :: "string option"

record TokenMetrics =
  m_mint :: string
  m_symbol :: string
  m_name :: string
  liquidity :: real
  holders :: nat
  topHolderConcentration :: real
  tokenAgeHours :: real
  lpAge :: real

record GraduationFilter =
  minLiquidity :: real
  minVolume5m :: real
  minHolders :: nat
  maxAgeMinutes :: real
  excludeRuggedDeployers :: bool
  minLiquidityRatio :: "real option"
  minBuySellRatio :: "real option"

text \<open>
  The entries of \<^verbatim>\<open>filterFailures\<close> are strings built from a fixed template and the
  measured values. Each template is a constructor carrying the values it interpolates;
  the rendering of the numbers (\<^verbatim>\<open>toFixed\<close>) is not modelled. The first eight are the
  messages of \<^verbatim>\<open>applyFilter\<close>, the others the badges of \<^verbatim>\<open>generateWarnings\<close>.
\<close>

datatype message =
    LiquidityBelow "real option" real
  | Volume5mBelow "real option" real
  | AgeAbove real real
  | HoldersBelow nat nat
  | HighConcentration real
  | LiqRatioBelow real real
  | BuySellBelow real real
  | WashTrading real
  | LiqDrained
  | LowLiqRatio
  | Top10Over60
  | Top10Over40
  | NoVolume
  | HeavySellPressure
  | LowLiq
  | NoSocials

record FilterResult =
  passes :: bool
  failures :: "message list"

definition DEFAULT_GRADUATION_FILTER :: GraduationFilter where
  "DEFAULT_GRADUATION_FILTER =
     \<lparr> minLiquidity = 8000, minVolume5m = 200, minHolders = 75, maxAgeMinutes = 60,
       excludeRuggedDeployers = True, minLiquidityRatio = Some 8,
       minBuySellRatio = Some 0.3 \<rparr>"

definition AGGRESSIVE_GRADUATION_FILTER :: GraduationFilter where
  "AGGRESSIVE_GRADUATION_FILTER =
     \<lparr> minLiquidity = 8000, minVolume5m = 500, minHolders = 75, maxAgeMinutes = 20,
       excludeRuggedDeployers = True, minLiquidityRatio = Some 8,
       minBuySellRatio = Some 0.3 \<rparr>"

definition CONSERVATIVE_GRADUATION_FILTER :: GraduationFilter where
  "CONSERVATIVE_GRADUATION_FILTER =
     \<lparr> minLiquidity = 20000, minVolume5m = 2000, minHolders = 150, maxAgeMinutes = 120,
       excludeRuggedDeployers = True, minLiquidityRatio = Some 15,
       minBuySellRatio = Some 0.8 \<rparr>"

section \<open>Filter Engine: \<^verbatim>\<open>GraduationWatcher.applyFilter\<close>\<close>

text \<open>
  \<^verbatim>\<open>Date.now()\<close> is the parameter \<open>now\<close> (epoch milliseconds). The rules are evaluated in
  the order of the source and every failing rule appends its message.
\<close>

definition applyFilter ::
  "real \<Rightarrow> DexScreenerPair \<Rightarrow> TokenMetrics \<Rightarrow> GraduationFilter \<Rightarrow> FilterResult" where
  "applyFilter now p m f =
    (let ageMinutes = (now - pairCreatedAt p) / (1000 * 60);
         mcap = or_num (marketCap p) 0;
         liq = or_num (liquidity_usd p) 0;
         minLiqRatio = or_num (minLiquidityRatio f) 8;
         buys = or_num (txns_m5_buys p) 0;
         sells = or_num (txns_m5_sells p) 0;
         minBuySell = or_num (minBuySellRatio f) 0.3;
         fs =
           (if or_num (liquidity_usd p) 0 < minLiquidity f
              then [LiquidityBelow (liquidity_usd p) (minLiquidity f)] else [])
         @ (if or_num (volume_m5 p) 0 < minVolume5m f
              then [Volume5mBelow (volume_m5 p) (minVolume5m f)] else [])
         @ (if ageMinutes > maxAgeMinutes f
              then [AgeAbove ageMinutes (maxAgeMinutes f)] else [])
         @ (if holders m > 0 \<and> holders m < minHolders f
              then [HoldersBelow (holders m) (minHolders f)] else [])
         @ (if topHolderConcentration m > 50
              then [HighConcentration (topHolderConcentration m)] else [])
         @ (if mcap > 0 \<and> liq > 0
              then (if (liq / mcap) * 100 < minLiqRatio
                      then [LiqRatioBelow ((liq / mcap) * 100) minLiqRatio] else [])
              else [])
         @ (if sells > 0
              then (if buys / sells < minBuySell
                      then [BuySellBelow (buys / sells) minBuySell] else [])
              else [])
         @ (if mcap > 5000000 \<and> ageMinutes < 15
              then (if or_num (volume_h1 p) 0 < mcap * 0.1 then [WashTrading mcap] else [])
              else [])
     in \<lparr> passes = (length fs = 0), failures = fs \<rparr>)"

section \<open>Scorer: \<^verbatim>\<open>GraduationWatcher.calculateScore\<close>\<close>

text \<open>
  Each \<^verbatim>\<open>if\<close>/\<^verbatim>\<open>else if\<close> chain of the source adds to or subtracts from \<^verbatim>\<open>score\<close> in at most
  one of its branches; the chain is the amount added, zero when no branch fires.
\<close>

definition calculateScore :: "DexScreenerPair \<Rightarrow> TokenMetrics \<Rightarrow> real" where
  "calculateScore p m =
    (let score = 5;
         vol5m = or_num (volume_m5 p) 0;
         vol1hAvg = or_num (volume_h1 p) 0 / 12;
         score = score + (if vol5m > vol1hAvg * 2 then 1.5
                          else if vol5m > vol1hAvg * 1.5 then 1
                          else if vol5m < vol1hAvg * 0.5 then - 1 else 0);
         liq = or_num (liquidity_usd p) 0;
         score = score + (if liq > 50000 then 1
                          else if liq > 20000 then 0.5
                          else if liq < 5000 then - 1 else 0);
         buys = or_num (txns_m5_buys p) 0;
         sells = or_num (txns_m5_sells p) 0;
         ratio = (if sells > 0 then buys / sells else if buys > 0 then 2 else 1);
         score = score + (if ratio > 2 then 1
                          else if ratio > 1.5 then 0.5
                          else if ratio < 0.5 then - 1.5 else 0);
         priceChange5m = or_num (priceChange_m5 p) 0;
         score = score + (if priceChange5m > 20 then 1
                          else if priceChange5m > 10 then 0.5
                          else if priceChange5m < - 20 then - 1 else 0);
         mcap = or_num (marketCap p) 0;
         score = score + (if mcap > 100000 \<and> mcap < 5000000 then 0.5
                          else if mcap > 10000000 then - 0.5 else 0);
         score = score + (if mcap > 0 \<and> liq > 0
                          then (let liqRatio = (liq / mcap) * 100
                                in if liqRatio \<ge> 20 then 2
                                   else if liqRatio \<ge> 15 then 1.5
                                   else if liqRatio \<ge> 10 then 0.5
                                   else if liqRatio < 5 then - 3
                                   else if liqRatio < 8 then - 2 else 0)
                          else 0);
         hs = holders m;
         score = score + (if hs > 200 then 1
                          else if hs > 100 then 0.5
                          else if hs < 30 \<and> hs > 0 then - 0.5 else 0);
         concentration = topHolderConcentration m;
         score = score + (if concentration > 0
                          then (if concentration < 20 then 1
                                else if concentration < 35 then 0.5
                                else if concentration > 60 then - 1
                                else if concentration > 45 then - 0.5 else 0)
                          else 0)
     in max 0 (min 10 score))"

section \<open>Data Source Adapter\<close>

subsection \<open>Holder data: \<^verbatim>\<open>HeliusProvider\<close>\<close>

text \<open>
  The two RPC requests are parameters. \<open>rpc_total h mint\<close> is \<^verbatim>\<open>data.result?.total\<close> of
  the holder-count request and \<open>rpc_token_accounts h mint limit\<close> the \<^verbatim>\<open>amount\<close> fields
  of \<^verbatim>\<open>data.result?.token_accounts\<close>; \<^term>\<open>None\<close> stands for every path on which the
  method gives its default: no API key, a response that is not ok, an exception, a
  missing field. Both methods catch their own errors, so the promises never reject.
  The one-minute cache returns an earlier result of the same computation and is left out.
  Of each top holder only \<^verbatim>\<open>percentage\<close> is read, so \<open>getTopHolders\<close> returns the
  percentages.
\<close>

record HeliusProvider =
  rpc_total :: "string \<Rightarrow> nat option"
  rpc_token_accounts :: "string \<Rightarrow> nat \<Rightarrow> nat list option"

definition getTokenHolderCount :: "HeliusProvider \<Rightarrow> string \<Rightarrow> nat" where
  "getTokenHolderCount h mint = (case rpc_total h mint of None \<Rightarrow> 0 | Some n \<Rightarrow> n)"

definition getTopHolders :: "HeliusProvider \<Rightarrow> string \<Rightarrow> nat \<Rightarrow> real list" where
  "getTopHolders h mint limit =
     (case rpc_token_accounts h mint limit of
        None \<Rightarrow> []
      | Some accounts \<Rightarrow>
          (let totalAmount = foldl (\<lambda>sum amount. sum + amount) 0 accounts
           in map (\<lambda>amount. if totalAmount > 0
                              then (real amount / real totalAmount) * 100 else 0) accounts))"

definition getTopHolderConcentration :: "HeliusProvider \<Rightarrow> string \<Rightarrow> nat \<Rightarrow> real" where
  "getTopHolderConcentration h mint topN =
     foldl (\<lambda>sum percentage. sum + percentage) 0 (getTopHolders h mint topN)"

subsection \<open>Listings: \<^verbatim>\<open>DexScreenerProvider\<close>\<close>

text \<open>
  The provider's state is its cache, a map from the cache key to the stored list and its
  time stamp. The HTTP response of the latest-pairs endpoint is the parameter
  \<open>response\<close>: \<^term>\<open>None\<close> when the response is not ok or the request throws, otherwise
  \<^verbatim>\<open>data.pairs || []\<close>. The filter with its \<^verbatim>\<open>seenMints\<close> set is \<open>raydiumDedupe\<close>.
\<close>

record CacheEntry =
  data :: "DexScreenerPair list"
  timestamp :: real

type_synonym pair_cache = "string \<Rightarrow> CacheEntry option"

definition cacheTTL :: real where
  "cacheTTL = 30000"

fun raydiumDedupe :: "string list \<Rightarrow> DexScreenerPair list \<Rightarrow> DexScreenerPair list" where
  "raydiumDedupe seenMints [] = []"
| "raydiumDedupe seenMints (p # ps) =
     (if dexId p = ''raydium'' \<and> chainId p = ''solana''
      then (if baseToken_address p \<in> set seenMints
            then raydiumDedupe seenMints ps
            else p # raydiumDedupe (baseToken_address p # seenMints) ps)
      else raydiumDedupe seenMints ps)"

definition getLatestSolanaPairs ::
  "pair_cache \<Rightarrow> real \<Rightarrow> DexScreenerPair list option \<Rightarrow> nat
     \<Rightarrow> DexScreenerPair list \<times> pair_cache" where
  "getLatestSolanaPairs cache now response limit =
     (let cacheKey = ''latest-solana-pairs'';
          fetched =
            (case response of
               None \<Rightarrow> ([], cache)
             | Some pairs \<Rightarrow>
                 (let result = take limit (raydiumDedupe [] pairs)
                  in (result, cache(cacheKey \<mapsto> \<lparr> data = result, timestamp = now \<rparr>))))
      in case cache cacheKey of
           None \<Rightarrow> fetched
         | Some cached \<Rightarrow>
             (if now - timestamp cached < cacheTTL then (data cached, cache) else fetched))"

subsection \<open>Metrics Mapper: \<^verbatim>\<open>pairToMetrics\<close>\<close>

definition pairToMetrics :: "real \<Rightarrow> DexScreenerPair \<Rightarrow> TokenMetrics" where
  "pairToMetrics now p =
     (let ageMs = now - pairCreatedAt p;
          ageHours = ageMs / (1000 * 60 * 60)
      in \<lparr> m_mint = baseToken_address p, m_symbol = baseToken_symbol p,
           m_name = baseToken_name p, liquidity = or_num (liquidity_usd p) 0,
           holders = 0, topHolderConcentration = 0, tokenAgeHours = ageHours,
           lpAge = ageHours \<rparr>)"

section \<open>Warning Generator: \<^verbatim>\<open>generateWarnings\<close>\<close>

definition generateWarnings :: "DexScreenerPair \<Rightarrow> TokenMetrics \<Rightarrow> message list" where
  "generateWarnings p m =
     (let mcap = or_num (marketCap p) 0;
          liq = or_num (liquidity_usd p) 0;
          liqRatio = (if mcap > 0 then (liq / mcap) * 100 else 0);
          buys = or_num (txns_m5_buys p) 0;
          sells = or_num (txns_m5_sells p) 0;
          hasSocials = (case info_socials p of None \<Rightarrow> False | Some s \<Rightarrow> length s > 0);
          hasWebsite = (case info_websites p of None \<Rightarrow> False | Some w \<Rightarrow> length w > 0)
      in (if liqRatio > 0 \<and> liqRatio < 5 then [LiqDrained]
          else if liqRatio > 0 \<and> liqRatio < 8 then [LowLiqRatio] else [])
       @ (if topHolderConcentration m > 60 then [Top10Over60]
          else if topHolderConcentration m > 40 then [Top10Over40] else [])
       @ (if or_num (volume_m5 p) 0 = 0 \<and> or_num (volume_h1 p) 0 = 0 then [NoVolume] else [])
       @ (if sells > 0 \<and> buys > 0 \<and> buys / sells < 0.3 then [HeavySellPressure] else [])
       @ (if liq > 0 \<and> liq < 5000 then [LowLiq] else [])
       @ (if hasSocials then [] else if hasWebsite then [] else [NoSocials]))"

section \<open>Graduation Watcher\<close>

record PumpFunGraduation =
  mint :: string
  symbol :: string
  name :: string
  graduatedAt :: real
  bondingCurveAddress :: string
  raydiumPairAddress :: string
  initialLiquidity :: real
  initialMarketCap :: real
  creatorAddress :: string
  imageUrl :: "string option"

record GraduationCandidate =
  graduation :: PumpFunGraduation
  pair :: DexScreenerPair
  metrics :: TokenMetrics
  score :: real
  passesFilter :: bool
  filterFailures :: "message list"

text \<open>The object literal \<^verbatim>\<open>graduation\<close>, written out in each of the three scans.\<close>

definition graduationOf :: "DexScreenerPair \<Rightarrow> PumpFunGraduation" where
  "graduationOf p =
     \<lparr> mint = baseToken_address p, symbol = baseToken_symbol p, name = baseToken_name p,
       graduatedAt = pairCreatedAt p, bondingCurveAddress = [],
       raydiumPairAddress = pairAddress p,
       initialLiquidity = or_num (liquidity_usd p) 0,
       initialMarketCap = or_num (marketCap p) 0,
       creatorAddress = [], imageUrl = info_imageUrl p \<rparr>"

text \<open>
  The scans take the list \<open>pairs\<close> that the provider returned and one value \<open>now\<close> of the
  clock for the whole pass. \<^verbatim>\<open>holderCount || 100\<close> on a count is \<^verbatim>\<open>100\<close> exactly when
  the count is zero. \<^verbatim>\<open>Array.prototype.sort\<close> is stable, as \<^const>\<open>sort_key\<close> is; a
  comparator \<^verbatim>\<open>b.k - a.k\<close> sorts by descending \<^verbatim>\<open>k\<close>. The watcher's own \<^verbatim>\<open>seenMints\<close>
  is written and never read, and is left out.
\<close>

text \<open>
  The metrics object after the enrichment block that \<^verbatim>\<open>scanForGraduations\<close> and
  \<^verbatim>\<open>scanFreshGraduations\<close> share: the result of \<^verbatim>\<open>pairToMetrics\<close> with \<^verbatim>\<open>holders\<close> and
  \<^verbatim>\<open>topHolderConcentration\<close> assigned. It is the value that \<open>scanCandidate\<close> and
  \<open>freshCandidate\<close> below bind to \<open>m\<close> and hand to \<^verbatim>\<open>applyFilter\<close> and \<^verbatim>\<open>calculateScore\<close>.
\<close>

definition enrichedMetrics :: "real \<Rightarrow> HeliusProvider \<Rightarrow> DexScreenerPair \<Rightarrow> TokenMetrics" where
  "enrichedMetrics now helius p =
     (let metrics0 = pairToMetrics now p;
          holderCount = getTokenHolderCount helius (baseToken_address p);
          concentration = getTopHolderConcentration helius (baseToken_address p) 10
      in metrics0 \<lparr> holders := (if holderCount = 0 then 100 else holderCount),
                    topHolderConcentration :=
                      (if concentration = 0 then 25 else concentration) \<rparr>)"

definition scanCandidate ::
  "real \<Rightarrow> HeliusProvider \<Rightarrow> GraduationFilter \<Rightarrow> DexScreenerPair \<Rightarrow> GraduationCandidate" where
  "scanCandidate now helius f p =
     (let metrics0 = pairToMetrics now p;
          holderCount = getTokenHolderCount helius (baseToken_address p);
          concentration = getTopHolderConcentration helius (baseToken_address p) 10;
          m = metrics0 \<lparr> holders := (if holderCount = 0 then 100 else holderCount),
                         topHolderConcentration :=
                           (if concentration = 0 then 25 else concentration) \<rparr>;
          r = applyFilter now p m f
      in \<lparr> graduation = graduationOf p, pair = p, metrics = m,
           score = calculateScore p m, passesFilter = passes r,
           filterFailures = failures r \<rparr>)"

definition scanForGraduations ::
  "real \<Rightarrow> HeliusProvider \<Rightarrow> DexScreenerPair list \<Rightarrow> GraduationFilter
     \<Rightarrow> GraduationCandidate list" where
  "scanForGraduations now helius pairs f =
     sort_key (\<lambda>c. - score c) (map (scanCandidate now helius f) pairs)"

definition freshCandidate ::
  "real \<Rightarrow> HeliusProvider \<Rightarrow> GraduationFilter \<Rightarrow> DexScreenerPair
     \<Rightarrow> GraduationCandidate list" where
  "freshCandidate now helius f p =
     (let ageMinutes = (now - or_num (Some (pairCreatedAt p)) 0) / (1000 * 60)
      in if ageMinutes > maxAgeMinutes f then []
         else
          (let metrics0 = pairToMetrics now p;
               holderCount = getTokenHolderCount helius (baseToken_address p);
               concentration = getTopHolderConcentration helius (baseToken_address p) 10;
               m = metrics0 \<lparr> holders := (if holderCount = 0 then 100 else holderCount),
                              topHolderConcentration :=
                                (if concentration = 0 then 25 else concentration) \<rparr>;
               r = applyFilter now p m f
           in if passes r
              then [\<lparr> graduation = graduationOf p, pair = p, metrics = m,
                      score = calculateScore p m, passesFilter = True,
                      filterFailures = [] \<rparr>]
              else []))"

definition scanFreshGraduations ::
  "real \<Rightarrow> HeliusProvider \<Rightarrow> DexScreenerPair list \<Rightarrow> GraduationFilter
     \<Rightarrow> GraduationCandidate list" where
  "scanFreshGraduations now helius pairs f =
     sort_key (\<lambda>c. - or_num (Some (pairCreatedAt (pair c))) 0)
       (concat (map (freshCandidate now helius f) pairs))"

text \<open>The hard-reject condition \<^verbatim>\<open>isAbsoluteScam\<close> of \<^verbatim>\<open>scanAllGraduations\<close>.\<close>

definition isAbsoluteScam :: "DexScreenerPair \<Rightarrow> TokenMetrics \<Rightarrow> bool" where
  "isAbsoluteScam p m =
     (let mcap = or_num (marketCap p) 0;
          liq = or_num (liquidity_usd p) 0;
          liqRatio = (if mcap > 0 then (liq / mcap) * 100 else 0)
      in (liqRatio > 0 \<and> liqRatio < 3) \<or> topHolderConcentration m > 80)"

definition allCandidate ::
  "real \<Rightarrow> HeliusProvider \<Rightarrow> real \<Rightarrow> DexScreenerPair \<Rightarrow> GraduationCandidate list" where
  "allCandidate now helius maxAge p =
     (let ageMinutes = (now - or_num (Some (pairCreatedAt p)) 0) / (1000 * 60)
      in if ageMinutes > maxAge then []
         else
          (let metrics0 = pairToMetrics now p;
               holderCount = getTokenHolderCount helius (baseToken_address p);
               concentration = getTopHolderConcentration helius (baseToken_address p) 10;
               m = metrics0 \<lparr> holders := (if holderCount = 0 then 0 else holderCount),
                              topHolderConcentration :=
                                (if concentration = 0 then 0 else concentration) \<rparr>;
               warnings = generateWarnings p m;
               mcap = or_num (marketCap p) 0;
               liq = or_num (liquidity_usd p) 0;
               scam = isAbsoluteScam p m
           in [\<lparr> graduation = (graduationOf p)
                     \<lparr> initialLiquidity := liq, initialMarketCap := mcap \<rparr>,
                   pair = p, metrics = m, score = calculateScore p m,
                   passesFilter = (\<not> scam), filterFailures = warnings \<rparr>]))"

definition scanAllGraduations ::
  "real \<Rightarrow> HeliusProvider \<Rightarrow> DexScreenerPair list \<Rightarrow> real \<Rightarrow> GraduationCandidate list" where
  "scanAllGraduations now helius pairs maxAge =
     sort_key (\<lambda>c. - or_num (Some (pairCreatedAt (pair c))) 0)
       (concat (map (allCandidate now helius maxAge) pairs))"

section \<open>Autopost Scheduler\<close>

subsection \<open>Recipients, call logs and the clock\<close>

record Policy =
  autopostEnabled :: bool
  maxCallsPerDay :: nat
  quietHoursStart :: "nat option"
  quietHoursEnd :: "nat option"
  minConfidenceScore :: real

record GuildConfig =
  guildId :: string
  guildName :: string
  channelId :: "string option"
  policy :: Policy

record TelegramChatConfig =
  chatId :: string
  chatTitle :: string
  chat_policy :: Policy
  display_minScore :: "real option"
  callCount :: nat
  lastCallAt :: "real option"

text \<open>
  Of a call log the scheduler reads the recipient, the mint of the call card and the
  creation time; the \<^verbatim>\<open>id\<close> string is not modelled.
\<close>

record CallLog =
  log_recipient :: string
  callCard_token_mint :: string
  triggeredBy :: string
  createdAt :: real

type_synonym call_logs = "string \<Rightarrow> CallLog list"

text \<open>
  One call of \<^verbatim>\<open>sendDiscordMessage\<close> or \<^verbatim>\<open>sendTelegramMessage\<close>: the recipient, the mint
  of the candidate and whether the platform accepted the message. The platform is the
  parameter \<open>send\<close>, from the channel or chat and the candidate to the outcome.
\<close>

record Dispatch =
  recipient :: string
  dispatched_mint :: string
  delivered :: bool

type_synonym sender = "string \<Rightarrow> GraduationCandidate \<Rightarrow> bool"

text \<open>
  \<^verbatim>\<open>new Date(t).toDateString()\<close> names the calendar day of \<open>t\<close> in the local time zone; it
  is represented by the number of that day, \<open>tz\<close> being the offset of the zone in
  milliseconds. \<^verbatim>\<open>getUTCHours\<close> is the hour of the day in UTC.
\<close>

definition toDateString :: "real \<Rightarrow> real \<Rightarrow> int" where
  "toDateString tz t = \<lfloor>(t + tz) / 86400000\<rfloor>"

definition getUTCHours :: "real \<Rightarrow> nat" where
  "getUTCHours t = nat (\<lfloor>t / 3600000\<rfloor> mod 24)"

definition isQuietHours :: "real \<Rightarrow> Policy \<Rightarrow> bool" where
  "isQuietHours now pol =
     (case quietHoursStart pol of
        None \<Rightarrow> False
      | Some start \<Rightarrow>
          (case quietHoursEnd pol of
             None \<Rightarrow> False
           | Some end \<Rightarrow>
               (let hour = getUTCHours now
                in if start < end then hour \<ge> start \<and> hour < end
                   else hour \<ge> start \<or> hour < end)))"

definition callsToday :: "real \<Rightarrow> real \<Rightarrow> CallLog list \<Rightarrow> nat" where
  "callsToday tz now logs =
     (let today = toDateString tz now
      in length (filter (\<lambda>entry. toDateString tz (createdAt entry) = today) logs))"

text \<open>
  Modelled from the spec: \<^verbatim>\<open>generateCallCard\<close> (\<^verbatim>\<open>./call-card\<close>) is not among the sources.
  A call log records the identity of the dispatched candidate; the card is built from
  \<^verbatim>\<open>candidate.metrics\<close>, so its \<^verbatim>\<open>token.mint\<close> is the mint of those metrics.
\<close>

definition generateCallCard_token_mint :: "TokenMetrics \<Rightarrow> string" where
  "generateCallCard_token_mint m = m_mint m"

subsection \<open>\<^verbatim>\<open>AutopostService\<close> (Discord)\<close>

text \<open>
  Modelled from the spec: the guild storage (\<^verbatim>\<open>./storage\<close>) is not among the sources. The
  call log of a recipient is append-only and \<^verbatim>\<open>getCallLogs(guildId)\<close> returns all of it.
\<close>

definition addCallLog :: "call_logs \<Rightarrow> string \<Rightarrow> CallLog \<Rightarrow> call_logs" where
  "addCallLog logs gid entry = logs(gid := logs gid @ [entry])"

definition getCallLogs :: "call_logs \<Rightarrow> string \<Rightarrow> CallLog list" where
  "getCallLogs logs gid = logs gid"

record Tick =
  sent :: nat
  dispatches :: "Dispatch list"
  callLogs :: call_logs

text \<open>The inner loop over \<^verbatim>\<open>highPotential\<close> for one guild.\<close>

fun postToGuild ::
  "sender \<Rightarrow> real \<Rightarrow> string \<Rightarrow> string \<Rightarrow> GraduationCandidate list \<Rightarrow> Tick \<Rightarrow> Tick" where
  "postToGuild send now gid channel [] st = st"
| "postToGuild send now gid channel (candidate # rest) st =
     (let success = send channel candidate;
          st1 = st \<lparr> dispatches := dispatches st @
                   [\<lparr> recipient = gid, dispatched_mint = mint (graduation candidate),
                      delivered = success \<rparr>] \<rparr>;
          st2 = (if success
                 then st1 \<lparr> sent := sent st1 + 1,
                            callLogs := addCallLog (callLogs st1) gid
                              \<lparr> log_recipient = gid,
                                callCard_token_mint =
                                  generateCallCard_token_mint (metrics candidate),
                                triggeredBy = ''auto'', createdAt = now \<rparr> \<rparr>
                 else st1)
      in postToGuild send now gid channel rest st2)"

text \<open>The loop over the guilds; each \<^verbatim>\<open>continue\<close> leaves the state as it is.\<close>

fun notifyGuilds ::
  "sender \<Rightarrow> real \<Rightarrow> real \<Rightarrow> GraduationCandidate list \<Rightarrow> GuildConfig list \<Rightarrow> Tick \<Rightarrow> Tick" where
  "notifyGuilds send tz now highPotential [] st = st"
| "notifyGuilds send tz now highPotential (guild # rest) st =
     notifyGuilds send tz now highPotential rest
       (if autopostEnabled (policy guild)
        then (case channelId guild of
                None \<Rightarrow> st
              | Some channel \<Rightarrow>
                  if channel = [] then st
                  else if isQuietHours now (policy guild) then st
                  else if callsToday tz now (getCallLogs (callLogs st) (guildId guild))
                            \<ge> maxCallsPerDay (policy guild) then st
                  else if length highPotential = 0 then st
                  else postToGuild send now (guildId guild) channel highPotential st)
        else st)"

definition AutopostService_scanAndNotify ::
  "real \<Rightarrow> sender \<Rightarrow> real \<Rightarrow> real \<Rightarrow> HeliusProvider \<Rightarrow> DexScreenerPair list
     \<Rightarrow> GuildConfig list \<Rightarrow> call_logs \<Rightarrow> Tick" where
  "AutopostService_scanAndNotify minScore send tz now helius pairs guilds logs =
     (let candidates = scanForGraduations now helius pairs DEFAULT_GRADUATION_FILTER;
          highPotential = filter (\<lambda>c. passesFilter c \<and> score c \<ge> minScore) candidates
      in notifyGuilds send tz now highPotential guilds
           \<lparr> sent = 0, dispatches = [], callLogs = logs \<rparr>)"

subsection \<open>\<^verbatim>\<open>TelegramAutopostService\<close> over \<^verbatim>\<open>InMemoryTelegramStorage\<close>\<close>

text \<open>
  The storage keeps, per chat, the newest log first and at most 100 logs;
  \<^verbatim>\<open>getCallLogs(chatId, limit)\<close> is the first \<open>limit\<close> of them. The chats are kept in
  insertion order, one per \<^verbatim>\<open>chatId\<close>. \<^verbatim>\<open>seenTokens\<close> is a \<^verbatim>\<open>Set\<close>, kept as the list of
  its elements in insertion order.
\<close>

record TelegramState =
  seenTokens :: "string list"
  chats :: "TelegramChatConfig list"
  tg_callLogs :: call_logs

record TelegramTick =
  tg_sent :: nat
  tg_candidates :: nat
  tg_dispatches :: "Dispatch list"
  tg_state :: TelegramState

definition tg_addCallLog :: "call_logs \<Rightarrow> string \<Rightarrow> CallLog \<Rightarrow> call_logs" where
  "tg_addCallLog logs cid entry =
     (let unshifted = entry # logs cid
      in logs(cid := (if length unshifted > 100 then butlast unshifted else unshifted)))"

definition tg_getCallLogs :: "call_logs \<Rightarrow> string \<Rightarrow> nat \<Rightarrow> CallLog list" where
  "tg_getCallLogs logs cid limit = take limit (logs cid)"

fun saveChatConfig :: "TelegramChatConfig list \<Rightarrow> TelegramChatConfig \<Rightarrow> TelegramChatConfig list" where
  "saveChatConfig [] config = [config]"
| "saveChatConfig (c # cs) config =
     (if chatId c = chatId config then config # cs else c # saveChatConfig cs config)"

definition getActiveChats :: "TelegramChatConfig list \<Rightarrow> TelegramChatConfig list" where
  "getActiveChats cs = filter (\<lambda>c. autopostEnabled (chat_policy c)) cs"

definition setAdd :: "string list \<Rightarrow> string \<Rightarrow> string list" where
  "setAdd xs x = (if x \<in> set xs then xs else xs @ [x])"

text \<open>
  The eviction walks the first \<^verbatim>\<open>size - 500\<close> elements in insertion order and deletes
  each one that is truthy, that is, not the empty string.
\<close>

definition limitSeenTokens :: "string list \<Rightarrow> string list" where
  "limitSeenTokens seen =
     (if length seen > 500
      then (let toRemove = length seen - 500
            in filter (\<lambda>val. val = []) (take toRemove seen) @ drop toRemove seen)
      else seen)"

text \<open>
  The inner loop over \<^verbatim>\<open>chatCandidates\<close>. \<open>logs\<close> is the list read before the loop; the
  chat object is updated along the way.
\<close>

fun postToChat ::
  "sender \<Rightarrow> real \<Rightarrow> CallLog list \<Rightarrow> TelegramChatConfig \<Rightarrow> GraduationCandidate list
     \<Rightarrow> TelegramTick \<Rightarrow> TelegramTick" where
  "postToChat send now logs chat [] st = st"
| "postToChat send now logs chat (candidate # rest) st =
     (let alreadyPosted =
            (mint (graduation candidate) \<in> set (map callCard_token_mint logs))
      in if alreadyPosted then postToChat send now logs chat rest st
         else
          (let ok = send (chatId chat) candidate;
               st1 = st \<lparr> tg_dispatches := tg_dispatches st @
                        [\<lparr> recipient = chatId chat,
                           dispatched_mint = mint (graduation candidate),
                           delivered = ok \<rparr>] \<rparr>
           in if ok
              then (let callLog = \<lparr> log_recipient = chatId chat,
                                    callCard_token_mint =
                                      generateCallCard_token_mint (metrics candidate),
                                    triggeredBy = ''auto'', createdAt = now \<rparr>;
                        chat1 = chat \<lparr> callCount := callCount chat + 1,
                                      lastCallAt := Some now \<rparr>;
                        s = tg_state st1;
                        s1 = s \<lparr> tg_callLogs := tg_addCallLog (tg_callLogs s) (chatId chat) callLog,
                                chats := saveChatConfig (chats s) chat1 \<rparr>
                    in postToChat send now logs chat1 rest
                         (st1 \<lparr> tg_sent := tg_sent st1 + 1, tg_state := s1 \<rparr>))
              else postToChat send now logs chat rest st1))"

fun notifyChats ::
  "sender \<Rightarrow> real \<Rightarrow> real \<Rightarrow> GraduationCandidate list \<Rightarrow> TelegramChatConfig list
     \<Rightarrow> TelegramTick \<Rightarrow> TelegramTick" where
  "notifyChats send tz now highPotential [] st = st"
| "notifyChats send tz now highPotential (chat # rest) st =
     notifyChats send tz now highPotential rest
       (if isQuietHours now (chat_policy chat) then st
        else
         (let logs = tg_getCallLogs (tg_callLogs (tg_state st)) (chatId chat) 100
          in if callsToday tz now logs \<ge> maxCallsPerDay (chat_policy chat) then st
             else if length highPotential = 0 then st
             else
              (let chatMinScore =
                     or_num (display_minScore chat) (minConfidenceScore (chat_policy chat));
                   chatCandidates = filter (\<lambda>c. score c \<ge> chatMinScore) highPotential
               in postToChat send now logs chat chatCandidates st)))"

definition TelegramAutopostService_scanAndNotify ::
  "real \<Rightarrow> sender \<Rightarrow> real \<Rightarrow> real \<Rightarrow> HeliusProvider \<Rightarrow> DexScreenerPair list
     \<Rightarrow> TelegramState \<Rightarrow> TelegramTick" where
  "TelegramAutopostService_scanAndNotify minScore send tz now helius pairs s =
     (let active = getActiveChats (chats s)
      in if length active = 0
         then \<lparr> tg_sent = 0, tg_candidates = 0, tg_dispatches = [], tg_state = s \<rparr>
         else
          (let candidates = scanForGraduations now helius pairs DEFAULT_GRADUATION_FILTER;
               highPotential =
                 filter (\<lambda>c. (mint (graduation c) \<notin> set (seenTokens s))
                            \<and> (passesFilter c \<and> score c \<ge> minScore)) candidates;
               seen1 = (if length highPotential > 0
                        then limitSeenTokens
                               (foldl setAdd (seenTokens s) (map (\<lambda>c. mint (graduation c)) highPotential))
                        else seenTokens s)
           in notifyChats send tz now highPotential active
                \<lparr> tg_sent = 0, tg_candidates = length highPotential, tg_dispatches = [],
                  tg_state = s \<lparr> seenTokens := seen1 \<rparr> \<rparr>))"

section \<open>Concrete inputs\<close>

text \<open>
  A pair ten minutes old at \<open>example_now\<close> with healthy figures, and the variations of it
  that the boundary cases below need. \<open>helius_down\<close> is the provider without an API key.
\<close>

definition example_now :: real where
  "example_now = 600000"

definition example_pair :: DexScreenerPair where
  "example_pair =
     \<lparr> baseToken_address = ''MintA'', baseToken_symbol = ''AAA'',
       baseToken_name = ''Token A'', pairAddress = ''PairA'', dexId = ''raydium'',
       chainId = ''solana'', pairCreatedAt = 0, liquidity_usd = Some 60000,
       marketCap = Some 300000, volume_m5 = Some 5000, volume_h1 = Some 12000,
       priceChange_m5 = Some 25, txns_m5_buys = Some 30, txns_m5_sells = Some 10,
       info_socials = None, info_websites = None, info_imageUrl = None \<rparr>"

definition example_metrics :: TokenMetrics where
  "example_metrics =
     \<lparr> m_mint = ''MintA'', m_symbol = ''AAA'', m_name = ''Token A'', liquidity = 60000,
       holders = 100, topHolderConcentration = 25, tokenAgeHours = 0, lpAge = 0 \<rparr>"

definition boundary_pair :: DexScreenerPair where
  "boundary_pair = example_pair \<lparr> marketCap := Some 100000, liquidity_usd := Some 8000 \<rparr>"

definition zero_pair :: DexScreenerPair where
  "zero_pair =
     example_pair \<lparr> volume_m5 := Some 0, volume_h1 := Some 0, liquidity_usd := Some 0,
                    txns_m5_buys := Some 0, txns_m5_sells := Some 0,
                    priceChange_m5 := Some 0, marketCap := Some 0 \<rparr>"

definition zero_metrics :: TokenMetrics where
  "zero_metrics = example_metrics \<lparr> holders := 0, topHolderConcentration := 0 \<rparr>"

definition helius_down :: HeliusProvider where
  "helius_down = \<lparr> rpc_total = (\<lambda>mint. None), rpc_token_accounts = (\<lambda>mint limit. None) \<rparr>"

definition second_pair :: DexScreenerPair where
  "second_pair =
     example_pair \<lparr> baseToken_address := ''MintB'', baseToken_symbol := ''BBB'',
                    pairAddress := ''PairB'' \<rparr>"

definition third_pair :: DexScreenerPair where
  "third_pair =
     example_pair \<lparr> baseToken_address := ''MintC'', baseToken_symbol := ''CCC'',
                    pairAddress := ''PairC'' \<rparr>"

text \<open>A pair whose liquidity is 1 percent of its market cap: an absolute scam.\<close>

definition scam_pair :: DexScreenerPair where
  "scam_pair = example_pair \<lparr> liquidity_usd := Some 3000 \<rparr>"

definition empty_cache :: pair_cache where
  "empty_cache = (\<lambda>key. None)"

text \<open>A platform that accepts every message, and recipients without quiet hours.\<close>

definition always_delivers :: sender where
  "always_delivers = (\<lambda>to candidate. True)"

definition example_policy :: Policy where
  "example_policy =
     \<lparr> autopostEnabled = True, maxCallsPerDay = 10, quietHoursStart = None,
       quietHoursEnd = None, minConfidenceScore = 6.5 \<rparr>"

definition example_guild :: GuildConfig where
  "example_guild =
     \<lparr> guildId = ''guild1'', guildName = ''Guild'', channelId = Some ''chan1'',
       policy = example_policy \<rparr>"

definition capped_guild :: GuildConfig where
  "capped_guild = example_guild \<lparr> policy := example_policy \<lparr> maxCallsPerDay := 1 \<rparr> \<rparr>"

definition capped_chat :: TelegramChatConfig where
  "capped_chat =
     \<lparr> chatId = ''chat1'', chatTitle = ''Chat'',
       chat_policy = example_policy \<lparr> maxCallsPerDay := 1 \<rparr>, display_minScore = None,
       callCount = 0, lastCallAt = None \<rparr>"

definition no_logs :: call_logs where
  "no_logs = (\<lambda>recipient. [])"

text \<open>The call log of \<open>guild1\<close> after \<open>MintA\<close> was posted to it five minutes ago.\<close>

definition logged_MintA :: call_logs where
  "logged_MintA =
     no_logs (''guild1'' :=
       [\<lparr> log_recipient = ''guild1'', callCard_token_mint = ''MintA'',
          triggeredBy = ''auto'', createdAt = 300000 \<rparr>])"

section \<open>Properties of the Filter Engine\<close>

lemma mem_if_list: "x \<in> set (if c then ys else []) \<longleftrightarrow> c \<and> x \<in> set ys"
  by simp

text \<open>The result passes exactly when no failure was recorded.\<close>

lemma applyFilter_passes: "passes (applyFilter now p m f) \<longleftrightarrow> failures (applyFilter now p m f) = []"
  unfolding applyFilter_def Let_def by simp

text \<open>
  The holders rule records its message exactly when the count is known (positive) and
  below the policy's minimum.
\<close>

lemma applyFilter_holders_rule:
  "HoldersBelow h k \<in> set (failures (applyFilter now p m f)) \<longleftrightarrow>
     0 < holders m \<and> holders m < minHolders f \<and> h = holders m \<and> k = minHolders f"
  unfolding applyFilter_def Let_def by (auto simp add: mem_if_list)

text \<open>
  Claim C8. With \<^verbatim>\<open>metrics.holders == 0\<close> the filter records no "holders below threshold"
  failure, whatever the policy, the pair and the other metrics are. Read from right to
  left: the \<^verbatim>\<open>minHolders\<close> rule can fail only when \<^verbatim>\<open>metrics.holders > 0\<close>.
\<close>

theorem applyFilter_unknown_holders_exempt:
  "holders m = 0 \<Longrightarrow> HoldersBelow h k \<notin> set (failures (applyFilter now p m f))"
  unfolding applyFilter_def Let_def by (simp add: mem_if_list)

theorem applyFilter_unknown_holders_exempt_witness:
  "holders zero_metrics = 0 \<and>
   HoldersBelow 0 75 \<notin>
     set (failures (applyFilter example_now zero_pair zero_metrics DEFAULT_GRADUATION_FILTER))"
proof -
  have h: "holders zero_metrics = 0"
    by (simp add: zero_metrics_def)
  from applyFilter_unknown_holders_exempt [OF h] h show ?thesis
    by blast
qed

text \<open>
  Claim C2, as the code has it. Under the Default policy a candidate with
  \<^verbatim>\<open>marketCap = 100000\<close> and \<^verbatim>\<open>liquidity.usd = 8000\<close>, a ratio of exactly 8, records no
  liquidity-ratio failure, since the comparison is strict; with liquidity 7990 (7.99) the
  failure is recorded, and with liquidity 8010 (8.01) it is not.
\<close>

theorem applyFilter_liquidity_ratio_boundary:
  "LiqRatioBelow r t \<notin> set (failures (applyFilter now
       (p \<lparr> marketCap := Some 100000, liquidity_usd := Some 8000 \<rparr>) m
       DEFAULT_GRADUATION_FILTER))
   \<and> LiqRatioBelow 7.99 8 \<in> set (failures (applyFilter now
       (p \<lparr> marketCap := Some 100000, liquidity_usd := Some 7990 \<rparr>) m
       DEFAULT_GRADUATION_FILTER))
   \<and> LiqRatioBelow r t \<notin> set (failures (applyFilter now
       (p \<lparr> marketCap := Some 100000, liquidity_usd := Some 8010 \<rparr>) m
       DEFAULT_GRADUATION_FILTER))"
  unfolding applyFilter_def Let_def
  by (simp add: mem_if_list or_num_def DEFAULT_GRADUATION_FILTER_def)

text \<open>
  Claim C2 as stated fails: at \<^verbatim>\<open>marketCap = 100000\<close>, \<^verbatim>\<open>liquidity.usd = 8000\<close> the Default
  policy records no failure at all, so in particular none for the liquidity ratio.
\<close>

theorem applyFilter_ratio_exactly_8_counterexample:
  "failures (applyFilter example_now boundary_pair example_metrics DEFAULT_GRADUATION_FILTER) = []"
  unfolding applyFilter_def Let_def
  by (simp add: or_num_def DEFAULT_GRADUATION_FILTER_def boundary_pair_def example_pair_def
        example_metrics_def example_now_def)

section \<open>Properties of the Scorer\<close>

lemma clamp_range: "0 \<le> max 0 (min 10 (x::real)) \<and> max 0 (min 10 x) \<le> 10"
  by simp

text \<open>
  Claim C7. For every pair and all metrics the score lies in the closed interval from 0
  to 10.
\<close>

theorem calculateScore_clamped: "0 \<le> calculateScore p m \<and> calculateScore p m \<le> 10"
  unfolding calculateScore_def Let_def by (rule clamp_range)

text \<open>
  Claim C3, as the code has it. When all the inputs of the scorer are zero, the score is
  4: the liquidity tier \<^verbatim>\<open>liq < 5000\<close> fires on a liquidity of zero and takes 1 from the
  base value 5; no other branch fires.
\<close>

theorem calculateScore_all_zero:
  "calculateScore
     (p \<lparr> volume_m5 := Some 0, volume_h1 := Some 0, liquidity_usd := Some 0,
          txns_m5_buys := Some 0, txns_m5_sells := Some 0, priceChange_m5 := Some 0,
          marketCap := Some 0 \<rparr>)
     (m \<lparr> holders := 0, topHolderConcentration := 0 \<rparr>) = 4"
proof -
  have z: "or_num (Some 0) 0 = 0"
    by (simp add: or_num_def)
  show ?thesis
    unfolding calculateScore_def Let_def by (simp add: z)
qed

text \<open>Claim C3 as stated fails: the score of the all-zero candidate is not the base value 5.\<close>

theorem calculateScore_all_zero_counterexample:
  "calculateScore zero_pair zero_metrics \<noteq> 5"
proof -
  have z: "or_num (Some 0) 0 = 0"
    by (simp add: or_num_def)
  show ?thesis
    unfolding calculateScore_def Let_def
    by (simp add: z zero_pair_def zero_metrics_def example_pair_def example_metrics_def)
qed

section \<open>Properties of the Graduation Watcher\<close>

subsection \<open>Enrichment\<close>

lemma foldl_add_nonneg:
  "0 \<le> a \<Longrightarrow> (\<And>x. x \<in> set xs \<Longrightarrow> 0 \<le> x) \<Longrightarrow> 0 \<le> foldl (\<lambda>s x. s + x) (a::real) xs"
  by (induction xs arbitrary: a) simp_all

lemma getTopHolders_nonneg: "x \<in> set (getTopHolders h a limit) \<Longrightarrow> 0 \<le> x"
  by (auto simp add: getTopHolders_def Let_def split: option.splits if_splits)

lemma getTopHolderConcentration_nonneg: "0 \<le> getTopHolderConcentration h a topN"
  unfolding getTopHolderConcentration_def
  by (rule foldl_add_nonneg) (simp_all add: getTopHolders_nonneg)

lemma helius_down_results:
  "getTokenHolderCount helius_down a = 0"
  "getTopHolderConcentration helius_down a n = 0"
  by (simp_all add: getTokenHolderCount_def getTopHolderConcentration_def getTopHolders_def
        helius_down_def)

subsection \<open>What each scan stores in a candidate\<close>

lemma graduationOf_mint: "mint (graduationOf p) = baseToken_address p"
  by (simp add: graduationOf_def)

lemma pairToMetrics_mint: "m_mint (pairToMetrics now p) = baseToken_address p"
  by (simp add: pairToMetrics_def Let_def)

lemma scanCandidate_fields:
  "pair (scanCandidate now helius f p) = p"
  "graduation (scanCandidate now helius f p) = graduationOf p"
  "passesFilter (scanCandidate now helius f p) \<longleftrightarrow>
     filterFailures (scanCandidate now helius f p) = []"
  "holders (metrics (scanCandidate now helius f p)) =
     (if getTokenHolderCount helius (baseToken_address p) = 0 then 100
      else getTokenHolderCount helius (baseToken_address p))"
  "topHolderConcentration (metrics (scanCandidate now helius f p)) =
     (if getTopHolderConcentration helius (baseToken_address p) 10 = 0 then 25
      else getTopHolderConcentration helius (baseToken_address p) 10)"
  by (simp_all add: scanCandidate_def Let_def applyFilter_passes)

lemma freshCandidate_fields:
  assumes "c \<in> set (freshCandidate now helius f p)"
  shows "pair c = p" "graduation c = graduationOf p"
    "passesFilter c" "filterFailures c = []"
    "holders (metrics c) =
       (if getTokenHolderCount helius (baseToken_address p) = 0 then 100
        else getTokenHolderCount helius (baseToken_address p))"
    "topHolderConcentration (metrics c) =
       (if getTopHolderConcentration helius (baseToken_address p) 10 = 0 then 25
        else getTopHolderConcentration helius (baseToken_address p) 10)"
  using assms by (auto simp add: freshCandidate_def Let_def split: if_splits)

lemma allCandidate_fields:
  assumes "c \<in> set (allCandidate now helius maxAge p)"
  shows "pair c = p"
    "passesFilter c = (\<not> isAbsoluteScam (pair c) (metrics c))"
    "filterFailures c = generateWarnings (pair c) (metrics c)"
  using assms by (auto simp add: allCandidate_def Let_def split: if_splits)

subsection \<open>The verdict and the list of failures\<close>

text \<open>
  Claim C1, as the code has it. For every candidate that \<^verbatim>\<open>scanForGraduations\<close> or
  \<^verbatim>\<open>scanFreshGraduations\<close> produces, \<^verbatim>\<open>passesFilter\<close> is true if and only if
  \<^verbatim>\<open>filterFailures\<close> is empty.
\<close>

theorem standard_and_fresh_passesFilter_iff_no_failures:
  "c \<in> set (scanForGraduations now helius pairs f)
        \<union> set (scanFreshGraduations now helius pairs f)
   \<Longrightarrow> passesFilter c \<longleftrightarrow> filterFailures c = []"
  unfolding scanForGraduations_def scanFreshGraduations_def
  by (auto simp add: scanCandidate_fields freshCandidate_fields)

theorem standard_and_fresh_passesFilter_iff_no_failures_witness:
  "scanCandidate example_now helius_down DEFAULT_GRADUATION_FILTER example_pair
     \<in> set (scanForGraduations example_now helius_down [example_pair]
               DEFAULT_GRADUATION_FILTER)
       \<union> set (scanFreshGraduations example_now helius_down [example_pair]
               DEFAULT_GRADUATION_FILTER)
   \<and> (passesFilter
         (scanCandidate example_now helius_down DEFAULT_GRADUATION_FILTER example_pair)
       \<longleftrightarrow> filterFailures
         (scanCandidate example_now helius_down DEFAULT_GRADUATION_FILTER example_pair) = [])"
proof -
  have mem:
    "scanCandidate example_now helius_down DEFAULT_GRADUATION_FILTER example_pair
       \<in> set (scanForGraduations example_now helius_down [example_pair]
                 DEFAULT_GRADUATION_FILTER)
         \<union> set (scanFreshGraduations example_now helius_down [example_pair]
                 DEFAULT_GRADUATION_FILTER)"
    by (simp add: scanForGraduations_def)
  from standard_and_fresh_passesFilter_iff_no_failures [OF mem] mem show ?thesis
    by blast
qed

text \<open>
  Claim C1 as stated fails for \<^verbatim>\<open>scanAllGraduations\<close>: the healthy pair without social
  links comes back with \<^verbatim>\<open>passesFilter\<close> true and one entry in \<^verbatim>\<open>filterFailures\<close>.
\<close>

theorem scanAll_passes_with_warning_counterexample:
  "map passesFilter (scanAllGraduations example_now helius_down [example_pair] 120) = [True]
   \<and> map filterFailures (scanAllGraduations example_now helius_down [example_pair] 120)
       = [[NoSocials]]"
  by (simp add: scanAllGraduations_def allCandidate_def Let_def helius_down_results
        isAbsoluteScam_def generateWarnings_def or_num_def example_pair_def example_now_def
        pairToMetrics_def)

subsection \<open>The unfiltered scan\<close>

lemma map_insort_key:
  "map f (insort_key (\<lambda>x. g (f x)) x xs) = insort_key g (f x) (map f xs)"
  by (induction xs) simp_all

lemma map_sort_key: "map f (sort_key (\<lambda>x. g (f x)) xs) = sort_key g (map f xs)"
  by (induction xs) (simp_all add: map_insort_key)

lemma map_pair_allCandidate:
  "map pair (concat (map (allCandidate now helius maxAge) pairs)) =
     filter (\<lambda>p. (now - pairCreatedAt p) / (1000 * 60) \<le> maxAge) pairs"
  by (induction pairs) (simp_all add: allCandidate_def Let_def or_num_def not_less)

lemma scanAllGraduations_pairs:
  "map pair (scanAllGraduations now helius pairs maxAge) =
     sort_key (\<lambda>p. - pairCreatedAt p)
       (filter (\<lambda>p. (now - pairCreatedAt p) / (1000 * 60) \<le> maxAge) pairs)"
proof -
  have k: "(\<lambda>c. - or_num (Some (pairCreatedAt (pair c))) 0) = (\<lambda>c. - pairCreatedAt (pair c))"
    by (simp add: or_num_def fun_eq_iff)
  show ?thesis
    unfolding scanAllGraduations_def k
    by (simp add: map_sort_key [where g = "\<lambda>p. - pairCreatedAt p" and f = pair]
          map_pair_allCandidate)
qed

text \<open>
  Claim C4, as the code has it. \<^verbatim>\<open>scanAllGraduations\<close> excludes no pair of the age window:
  the pairs of the returned candidates are the pairs within the window, newest first,
  those that meet the hard-reject condition among them. Such a candidate is returned with
  \<^verbatim>\<open>passesFilter\<close> false and every other one with \<^verbatim>\<open>passesFilter\<close> true; each carries the
  advisory warnings in \<^verbatim>\<open>filterFailures\<close>.
\<close>

theorem scanAllGraduations_flags_but_keeps:
  "map pair (scanAllGraduations now helius pairs maxAge) =
     sort_key (\<lambda>p. - pairCreatedAt p)
       (filter (\<lambda>p. (now - pairCreatedAt p) / (1000 * 60) \<le> maxAge) pairs)
   \<and> (\<forall>c \<in> set (scanAllGraduations now helius pairs maxAge).
         passesFilter c = (\<not> isAbsoluteScam (pair c) (metrics c))
         \<and> filterFailures c = generateWarnings (pair c) (metrics c))"
proof
  show "map pair (scanAllGraduations now helius pairs maxAge) =
     sort_key (\<lambda>p. - pairCreatedAt p)
       (filter (\<lambda>p. (now - pairCreatedAt p) / (1000 * 60) \<le> maxAge) pairs)"
    by (rule scanAllGraduations_pairs)
  show "\<forall>c \<in> set (scanAllGraduations now helius pairs maxAge).
         passesFilter c = (\<not> isAbsoluteScam (pair c) (metrics c))
         \<and> filterFailures c = generateWarnings (pair c) (metrics c)"
    unfolding scanAllGraduations_def by (auto simp add: allCandidate_fields)
qed

lemma scam_pair_scan:
  "scanAllGraduations example_now helius_down [scam_pair] 120 =
     allCandidate example_now helius_down 120 scam_pair"
  "allCandidate example_now helius_down 120 scam_pair \<noteq> []"
  by (simp_all add: scanAllGraduations_def allCandidate_def Let_def or_num_def scam_pair_def
        example_pair_def example_now_def)

theorem scanAllGraduations_flags_but_keeps_witness:
  "map pair (scanAllGraduations example_now helius_down [scam_pair] 120) = [scam_pair]
   \<and> hd (scanAllGraduations example_now helius_down [scam_pair] 120)
        \<in> set (scanAllGraduations example_now helius_down [scam_pair] 120)
   \<and> passesFilter (hd (scanAllGraduations example_now helius_down [scam_pair] 120))
       = (\<not> isAbsoluteScam scam_pair
              (metrics (hd (scanAllGraduations example_now helius_down [scam_pair] 120))))"
proof -
  have age: "(example_now - pairCreatedAt scam_pair) / (1000 * 60) \<le> 120"
    by (simp add: scam_pair_def example_pair_def example_now_def)
  have mem: "hd (scanAllGraduations example_now helius_down [scam_pair] 120)
        \<in> set (scanAllGraduations example_now helius_down [scam_pair] 120)"
    by (simp add: scam_pair_scan)
  have "hd (allCandidate example_now helius_down 120 scam_pair)
          \<in> set (allCandidate example_now helius_down 120 scam_pair)"
    by (simp add: scam_pair_scan)
  then have "pair (hd (allCandidate example_now helius_down 120 scam_pair)) = scam_pair"
    by (rule allCandidate_fields(1))
  then have p: "pair (hd (scanAllGraduations example_now helius_down [scam_pair] 120)) = scam_pair"
    by (simp add: scam_pair_scan(1))
  from scanAllGraduations_flags_but_keeps [of example_now helius_down "[scam_pair]" 120]
    age mem p
  show ?thesis
    by simp
qed

text \<open>
  Claim C4 as stated fails: a pair with a liquidity ratio of 1 percent meets the
  hard-reject condition and is still in the returned list, with \<^verbatim>\<open>passesFilter\<close> false.
\<close>

theorem scanAllGraduations_returns_scam_counterexample:
  "map pair (scanAllGraduations example_now helius_down [scam_pair] 120) = [scam_pair]
   \<and> map passesFilter (scanAllGraduations example_now helius_down [scam_pair] 120) = [False]"
  by (simp add: scanAllGraduations_def allCandidate_def Let_def helius_down_results
        isAbsoluteScam_def or_num_def example_pair_def example_now_def pairToMetrics_def
        scam_pair_def)

subsection \<open>Defaults of the standard and the fresh scan\<close>

text \<open>
  What the two scans hand to the filter and the scorer, pair by pair: the standard scan
  stores the verdict, the failures and the score computed on the enriched metrics, and
  the fresh scan keeps exactly the pairs of the age window whose enriched metrics pass.
\<close>

lemma getTopHolderConcentration_positive:
  "getTopHolderConcentration h a topN \<noteq> 0 \<Longrightarrow> 0 < getTopHolderConcentration h a topN"
  using getTopHolderConcentration_nonneg [of h a topN] by simp

lemma enrichedMetrics_values:
  "holders (enrichedMetrics now helius p) =
     (if getTokenHolderCount helius (baseToken_address p) = 0 then 100
      else getTokenHolderCount helius (baseToken_address p))"
  "topHolderConcentration (enrichedMetrics now helius p) =
     (if getTopHolderConcentration helius (baseToken_address p) 10 = 0 then 25
      else getTopHolderConcentration helius (baseToken_address p) 10)"
  by (simp_all add: enrichedMetrics_def Let_def)

lemma enrichedMetrics_positive:
  "0 < holders (enrichedMetrics now helius p)"
  "0 < topHolderConcentration (enrichedMetrics now helius p)"
proof -
  show "0 < holders (enrichedMetrics now helius p)"
    by (simp add: enrichedMetrics_values)
  have "0 \<le> getTopHolderConcentration helius (baseToken_address p) 10"
    by (rule getTopHolderConcentration_nonneg)
  then show "0 < topHolderConcentration (enrichedMetrics now helius p)"
    by (simp add: enrichedMetrics_values)
qed

lemma scanCandidate_calls:
  "metrics (scanCandidate now helius f p) = enrichedMetrics now helius p"
  "score (scanCandidate now helius f p) = calculateScore p (enrichedMetrics now helius p)"
  "passesFilter (scanCandidate now helius f p)
     = passes (applyFilter now p (enrichedMetrics now helius p) f)"
  "filterFailures (scanCandidate now helius f p)
     = failures (applyFilter now p (enrichedMetrics now helius p) f)"
  by (simp_all add: scanCandidate_def enrichedMetrics_def Let_def)

lemma freshCandidate_calls:
  "freshCandidate now helius f p =
     (if (now - pairCreatedAt p) / (1000 * 60) \<le> maxAgeMinutes f
         \<and> passes (applyFilter now p (enrichedMetrics now helius p) f)
      then [\<lparr> graduation = graduationOf p, pair = p, metrics = enrichedMetrics now helius p,
              score = calculateScore p (enrichedMetrics now helius p), passesFilter = True,
              filterFailures = [] \<rparr>]
      else [])"
  by (simp add: freshCandidate_def enrichedMetrics_def Let_def or_num_def not_less)

lemma map_insort_key_on:
  "k x = g (f x) \<Longrightarrow> (\<And>y. y \<in> set xs \<Longrightarrow> k y = g (f y)) \<Longrightarrow>
     map f (insort_key k x xs) = insort_key g (f x) (map f xs)"
  by (induction xs) simp_all

lemma map_sort_key_on:
  "(\<And>y. y \<in> set xs \<Longrightarrow> k y = g (f y)) \<Longrightarrow>
     map f (sort_key k xs) = sort_key g (map f xs)"
proof (induction xs)
  case Nil
  show ?case by simp
next
  case (Cons x xs)
  have "map f (insort_key k x (sort_key k xs)) = insort_key g (f x) (map f (sort_key k xs))"
    by (rule map_insort_key_on) (simp_all add: Cons.prems)
  also have "map f (sort_key k xs) = sort_key g (map f xs)"
    by (rule Cons.IH) (simp add: Cons.prems)
  finally show ?case by simp
qed

lemma scanForGraduations_pairs:
  "map pair (scanForGraduations now helius pairs f) =
     sort_key (\<lambda>p. - calculateScore p (enrichedMetrics now helius p)) pairs"
proof -
  have "map pair (sort_key (\<lambda>c. - score c) (map (scanCandidate now helius f) pairs)) =
          sort_key (\<lambda>p. - calculateScore p (enrichedMetrics now helius p))
            (map pair (map (scanCandidate now helius f) pairs))"
    by (rule map_sort_key_on) (auto simp add: scanCandidate_calls scanCandidate_fields)
  then show ?thesis
    by (simp add: scanForGraduations_def scanCandidate_fields o_def)
qed

lemma scanFreshGraduations_pairs:
  "map pair (scanFreshGraduations now helius pairs f) =
     sort_key (\<lambda>p. - pairCreatedAt p)
       (filter (\<lambda>p. (now - pairCreatedAt p) / (1000 * 60) \<le> maxAgeMinutes f
                    \<and> passes (applyFilter now p (enrichedMetrics now helius p) f)) pairs)"
proof -
  have k: "(\<lambda>c. - or_num (Some (pairCreatedAt (pair c))) 0) = (\<lambda>c. - pairCreatedAt (pair c))"
    by (simp add: or_num_def fun_eq_iff)
  have m: "map pair (concat (map (freshCandidate now helius f) pairs)) =
     filter (\<lambda>p. (now - pairCreatedAt p) / (1000 * 60) \<le> maxAgeMinutes f
                    \<and> passes (applyFilter now p (enrichedMetrics now helius p) f)) pairs"
    by (induction pairs) (simp_all add: freshCandidate_calls)
  show ?thesis
    unfolding scanFreshGraduations_def k
    by (simp add: map_sort_key [where g = "\<lambda>p. - pairCreatedAt p" and f = pair] m)
qed

lemma scanForGraduations_member:
  assumes "c \<in> set (scanForGraduations now helius pairs f)"
  shows "mint (graduation c) = baseToken_address (pair c)"
    "metrics c = enrichedMetrics now helius (pair c)"
    "score c = calculateScore (pair c) (metrics c)"
    "passesFilter c = passes (applyFilter now (pair c) (metrics c) f)"
    "filterFailures c = failures (applyFilter now (pair c) (metrics c) f)"
  using assms unfolding scanForGraduations_def
  by (auto simp add: scanCandidate_calls scanCandidate_fields graduationOf_mint)

lemma scanFreshGraduations_member:
  assumes "c \<in> set (scanFreshGraduations now helius pairs f)"
  shows "mint (graduation c) = baseToken_address (pair c)"
    "metrics c = enrichedMetrics now helius (pair c)"
    "score c = calculateScore (pair c) (metrics c)"
    "passes (applyFilter now (pair c) (metrics c) f)"
  using assms unfolding scanFreshGraduations_def
  by (auto simp add: freshCandidate_calls graduationOf_mint split: if_splits)

lemma holders_rule_without_exemption:
  "0 < holders m \<Longrightarrow>
     HoldersBelow (holders m) (minHolders f) \<in> set (failures (applyFilter now p m f))
       \<longleftrightarrow> holders m < minHolders f"
  by (simp add: applyFilter_holders_rule)

text \<open>
  Claim C10. In the standard and the fresh scan \<^verbatim>\<open>metrics.holders\<close> is 100 when the holder
  count came back as 0 (which is also what a failed request gives) and the count
  otherwise, and \<^verbatim>\<open>metrics.topHolderConcentration\<close> is 25 when the concentration came back
  as 0 and the concentration otherwise; both are positive. These are the metrics on which
  the two scans call the filter and the scorer, for every pair, kept or dropped: the
  standard scan returns one candidate per pair, ordered by the score of the enriched
  metrics, with the verdict and failures of the filter on them, and the fresh scan returns
  the pairs of the age window that pass the filter on them. So the \<^verbatim>\<open>holders == 0\<close>
  exemption is never taken there, the holders rule failing whenever the count is below
  the minimum, and the scorer never sees a concentration of 0; every emitted candidate
  has positive holders and concentration.
\<close>

theorem standard_and_fresh_metrics_never_unknown:
  "(holders (enrichedMetrics now helius p) =
      (if getTokenHolderCount helius (baseToken_address p) = 0 then 100
       else getTokenHolderCount helius (baseToken_address p))
    \<and> topHolderConcentration (enrichedMetrics now helius p) =
      (if getTopHolderConcentration helius (baseToken_address p) 10 = 0 then 25
       else getTopHolderConcentration helius (baseToken_address p) 10)
    \<and> 0 < holders (enrichedMetrics now helius p)
    \<and> 0 < topHolderConcentration (enrichedMetrics now helius p)
    \<and> (HoldersBelow (holders (enrichedMetrics now helius p)) (minHolders f)
          \<in> set (failures (applyFilter now p (enrichedMetrics now helius p) f))
        \<longleftrightarrow> holders (enrichedMetrics now helius p) < minHolders f))
   \<and> map pair (scanForGraduations now helius pairs f) =
       sort_key (\<lambda>p. - calculateScore p (enrichedMetrics now helius p)) pairs
   \<and> (\<forall>c \<in> set (scanForGraduations now helius pairs f).
         metrics c = enrichedMetrics now helius (pair c)
         \<and> score c = calculateScore (pair c) (metrics c)
         \<and> passesFilter c = passes (applyFilter now (pair c) (metrics c) f)
         \<and> filterFailures c = failures (applyFilter now (pair c) (metrics c) f)
         \<and> holders (metrics c) =
             (if getTokenHolderCount helius (mint (graduation c)) = 0 then 100
              else getTokenHolderCount helius (mint (graduation c)))
         \<and> topHolderConcentration (metrics c) =
             (if getTopHolderConcentration helius (mint (graduation c)) 10 = 0 then 25
              else getTopHolderConcentration helius (mint (graduation c)) 10)
         \<and> 0 < holders (metrics c) \<and> 0 < topHolderConcentration (metrics c))
   \<and> map pair (scanFreshGraduations now helius pairs f) =
       sort_key (\<lambda>p. - pairCreatedAt p)
         (filter (\<lambda>p. (now - pairCreatedAt p) / (1000 * 60) \<le> maxAgeMinutes f
                      \<and> passes (applyFilter now p (enrichedMetrics now helius p) f)) pairs)
   \<and> (\<forall>c \<in> set (scanFreshGraduations now helius pairs f).
         metrics c = enrichedMetrics now helius (pair c)
         \<and> score c = calculateScore (pair c) (metrics c)
         \<and> holders (metrics c) =
             (if getTokenHolderCount helius (mint (graduation c)) = 0 then 100
              else getTokenHolderCount helius (mint (graduation c)))
         \<and> topHolderConcentration (metrics c) =
             (if getTopHolderConcentration helius (mint (graduation c)) 10 = 0 then 25
              else getTopHolderConcentration helius (mint (graduation c)) 10)
         \<and> 0 < holders (metrics c) \<and> 0 < topHolderConcentration (metrics c))"
proof (intro conjI ballI)
  show "HoldersBelow (holders (enrichedMetrics now helius p)) (minHolders f)
          \<in> set (failures (applyFilter now p (enrichedMetrics now helius p) f))
        \<longleftrightarrow> holders (enrichedMetrics now helius p) < minHolders f"
    by (rule holders_rule_without_exemption) (rule enrichedMetrics_positive)
  show "map pair (scanForGraduations now helius pairs f) =
       sort_key (\<lambda>p. - calculateScore p (enrichedMetrics now helius p)) pairs"
    by (rule scanForGraduations_pairs)
  show "map pair (scanFreshGraduations now helius pairs f) =
       sort_key (\<lambda>p. - pairCreatedAt p)
         (filter (\<lambda>p. (now - pairCreatedAt p) / (1000 * 60) \<le> maxAgeMinutes f
                      \<and> passes (applyFilter now p (enrichedMetrics now helius p) f)) pairs)"
    by (rule scanFreshGraduations_pairs)
qed (simp_all add: enrichedMetrics_values getTopHolderConcentration_positive
       scanForGraduations_member scanFreshGraduations_member)

lemma enrichedMetrics_helius_down:
  "enrichedMetrics now helius_down p =
     pairToMetrics now p \<lparr> holders := 100, topHolderConcentration := 25 \<rparr>"
  by (simp add: enrichedMetrics_def Let_def helius_down_results)

lemma example_verdicts:
  "passes (applyFilter example_now example_pair
            (enrichedMetrics example_now helius_down example_pair) DEFAULT_GRADUATION_FILTER)"
  "\<not> passes (applyFilter example_now scam_pair
            (enrichedMetrics example_now helius_down scam_pair) DEFAULT_GRADUATION_FILTER)"
  "\<not> passes (applyFilter example_now example_pair
            (enrichedMetrics example_now helius_down example_pair)
            CONSERVATIVE_GRADUATION_FILTER)"
  unfolding applyFilter_def Let_def enrichedMetrics_helius_down
  by (simp_all add: or_num_def DEFAULT_GRADUATION_FILTER_def CONSERVATIVE_GRADUATION_FILTER_def
        example_pair_def scam_pair_def pairToMetrics_def example_now_def)

lemma example_ages:
  "example_now - pairCreatedAt example_pair = 600000"
  "example_now - pairCreatedAt scam_pair = 600000"
  by (simp_all add: example_pair_def scam_pair_def example_now_def)

lemma filter_maxAge:
  "maxAgeMinutes DEFAULT_GRADUATION_FILTER = 60"
  "maxAgeMinutes CONSERVATIVE_GRADUATION_FILTER = 120"
  "minHolders CONSERVATIVE_GRADUATION_FILTER = 150"
  by (simp_all add: DEFAULT_GRADUATION_FILTER_def CONSERVATIVE_GRADUATION_FILTER_def)

text \<open>
  On the all-zero pair the scorer sees the default concentration 25 and adds the half
  point of the tier below 35 to the 4 that the other inputs give.
\<close>

lemma zero_pair_score:
  "calculateScore zero_pair (enrichedMetrics example_now helius_down zero_pair) = 4.5"
  unfolding calculateScore_def Let_def enrichedMetrics_helius_down
  by (simp add: or_num_def zero_pair_def example_pair_def pairToMetrics_def)

theorem standard_and_fresh_metrics_never_unknown_witness:
  "map pair (scanFreshGraduations example_now helius_down [scam_pair, example_pair]
               DEFAULT_GRADUATION_FILTER) = [example_pair]
   \<and> hd (scanFreshGraduations example_now helius_down [scam_pair, example_pair]
               DEFAULT_GRADUATION_FILTER)
       \<in> set (scanFreshGraduations example_now helius_down [scam_pair, example_pair]
               DEFAULT_GRADUATION_FILTER)
   \<and> holders (metrics (hd (scanFreshGraduations example_now helius_down
               [scam_pair, example_pair] DEFAULT_GRADUATION_FILTER))) = 100
   \<and> topHolderConcentration (metrics (hd (scanFreshGraduations example_now helius_down
               [scam_pair, example_pair] DEFAULT_GRADUATION_FILTER))) = 25
   \<and> scanFreshGraduations example_now helius_down [example_pair]
               CONSERVATIVE_GRADUATION_FILTER = []
   \<and> hd (scanForGraduations example_now helius_down [example_pair]
               CONSERVATIVE_GRADUATION_FILTER)
       \<in> set (scanForGraduations example_now helius_down [example_pair]
               CONSERVATIVE_GRADUATION_FILTER)
   \<and> holders (metrics (hd (scanForGraduations example_now helius_down [example_pair]
               CONSERVATIVE_GRADUATION_FILTER))) = 100
   \<and> topHolderConcentration (metrics (hd (scanForGraduations example_now helius_down
               [example_pair] CONSERVATIVE_GRADUATION_FILTER))) = 25
   \<and> HoldersBelow 100 150
       \<in> set (filterFailures (hd (scanForGraduations example_now helius_down [example_pair]
               CONSERVATIVE_GRADUATION_FILTER)))
   \<and> score (hd (scanForGraduations example_now helius_down [zero_pair]
               DEFAULT_GRADUATION_FILTER)) = 4.5"
proof -
  let ?Lz = "scanForGraduations example_now helius_down [zero_pair] DEFAULT_GRADUATION_FILTER"
  note zero = standard_and_fresh_metrics_never_unknown
    [of example_now helius_down zero_pair DEFAULT_GRADUATION_FILTER "[zero_pair]"]
  note zero_pairs = zero [THEN conjunct2, THEN conjunct1]
  note zero_all = zero [THEN conjunct2, THEN conjunct2, THEN conjunct1]
  have pz: "map pair ?Lz = [zero_pair]"
    using zero_pairs by simp
  then have nz: "?Lz \<noteq> []"
    by auto
  then have mz: "hd ?Lz \<in> set ?Lz"
    by simp
  have "pair (hd ?Lz) = hd (map pair ?Lz)"
    using nz by (simp add: hd_map)
  then have hz: "pair (hd ?Lz) = zero_pair"
    by (simp add: pz)
  have "score (hd ?Lz)
          = calculateScore zero_pair (enrichedMetrics example_now helius_down zero_pair)"
    using zero_all [THEN bspec, OF mz] by (simp add: hz)
  then have sz: "score (hd ?Lz) = 4.5"
    by (simp add: zero_pair_score)
  let ?Lf = "scanFreshGraduations example_now helius_down [scam_pair, example_pair]
               DEFAULT_GRADUATION_FILTER"
  let ?Lc = "scanFreshGraduations example_now helius_down [example_pair]
               CONSERVATIVE_GRADUATION_FILTER"
  let ?Ls = "scanForGraduations example_now helius_down [example_pair]
               CONSERVATIVE_GRADUATION_FILTER"
  note fresh = standard_and_fresh_metrics_never_unknown
    [of example_now helius_down example_pair DEFAULT_GRADUATION_FILTER
        "[scam_pair, example_pair]"]
  note cons = standard_and_fresh_metrics_never_unknown
    [of example_now helius_down example_pair CONSERVATIVE_GRADUATION_FILTER "[example_pair]"]
  note fresh_pairs = fresh [THEN conjunct2, THEN conjunct2, THEN conjunct2, THEN conjunct1]
  note fresh_all = fresh [THEN conjunct2, THEN conjunct2, THEN conjunct2, THEN conjunct2]
  note cons_values = cons [THEN conjunct1]
  note cons_pairs = cons [THEN conjunct2, THEN conjunct1]
  note cons_all = cons [THEN conjunct2, THEN conjunct2, THEN conjunct1]
  note cons_fresh_pairs = cons [THEN conjunct2, THEN conjunct2, THEN conjunct2, THEN conjunct1]
  have pf: "map pair ?Lf = [example_pair]"
    using fresh_pairs by (simp add: example_verdicts example_ages filter_maxAge)
  then have nf: "?Lf \<noteq> []"
    by auto
  then have mf: "hd ?Lf \<in> set ?Lf"
    by simp
  have "pair (hd ?Lf) = hd (map pair ?Lf)"
    using nf by (simp add: hd_map)
  then have hf: "pair (hd ?Lf) = example_pair"
    by (simp add: pf)
  have ef: "metrics (hd ?Lf) = enrichedMetrics example_now helius_down example_pair"
    using fresh_all [THEN bspec, OF mf] by (simp add: hf)
  have "map pair ?Lc = []"
    using cons_fresh_pairs by (simp add: example_verdicts example_ages filter_maxAge)
  then have ec: "?Lc = []"
    by simp
  have ps: "map pair ?Ls = [example_pair]"
    using cons_pairs by simp
  then have ns: "?Ls \<noteq> []"
    by auto
  then have ms: "hd ?Ls \<in> set ?Ls"
    by simp
  have "pair (hd ?Ls) = hd (map pair ?Ls)"
    using ns by (simp add: hd_map)
  then have hs: "pair (hd ?Ls) = example_pair"
    by (simp add: ps)
  have es: "metrics (hd ?Ls) = enrichedMetrics example_now helius_down example_pair"
    using cons_all [THEN bspec, OF ms] by (simp add: hs)
  have fs: "filterFailures (hd ?Ls) =
              failures (applyFilter example_now example_pair
                (enrichedMetrics example_now helius_down example_pair)
                CONSERVATIVE_GRADUATION_FILTER)"
    using cons_all [THEN bspec, OF ms] by (simp add: hs)
  have v: "holders (enrichedMetrics example_now helius_down example_pair) = 100"
    "topHolderConcentration (enrichedMetrics example_now helius_down example_pair) = 25"
    using cons_values by (simp_all add: helius_down_results)
  have "HoldersBelow 100 150
          \<in> set (failures (applyFilter example_now example_pair
                (enrichedMetrics example_now helius_down example_pair)
                CONSERVATIVE_GRADUATION_FILTER))"
    using cons_values by (simp add: v filter_maxAge)
  with mf ef ec ms es fs v pf sz show ?thesis
    by simp
qed

section \<open>Properties of the Data Source Adapter\<close>

text \<open>
  A call that finds nothing under the cache key fetches, and then returns at most
  \<open>limit\<close> pairs.
\<close>

lemma getLatestSolanaPairs_fetch_bounded:
  "cache ''latest-solana-pairs'' = None \<Longrightarrow>
     length (fst (getLatestSolanaPairs cache now response limit)) \<le> limit"
  by (simp add: getLatestSolanaPairs_def Let_def split: option.splits)

text \<open>
  Claim C9 does not hold of the code. The cache key of \<^verbatim>\<open>getLatestSolanaPairs\<close> is the
  constant \<^verbatim>\<open>latest-solana-pairs\<close>, without the limit. A call with limit 50 at time 1000
  stores the three pairs it found; a call with limit 1 one second later is served from
  the cache and returns all three.
\<close>

theorem getLatestSolanaPairs_cache_ignores_limit:
  "length (fst (getLatestSolanaPairs
      (snd (getLatestSolanaPairs empty_cache 1000
              (Some [example_pair, second_pair, third_pair]) 50))
      2000 (Some [example_pair, second_pair, third_pair]) 1)) = 3"
  by (simp add: getLatestSolanaPairs_def Let_def empty_cache_def cacheTTL_def
        example_pair_def second_pair_def third_pair_def)

section \<open>Properties of the Autopost Scheduler\<close>

subsection \<open>The guards that the code has\<close>

text \<open>
  A recipient whose count of today's logs has reached its cap when its turn comes is
  skipped for this tick.
\<close>

lemma notifyGuilds_cap_guard:
  "callsToday tz now (getCallLogs (callLogs st) (guildId guild)) \<ge> maxCallsPerDay (policy guild)
   \<Longrightarrow> notifyGuilds send tz now highPotential [guild] st = st"
  by (simp split: option.splits)

lemma notifyChats_cap_guard:
  "callsToday tz now (tg_getCallLogs (tg_callLogs (tg_state st)) (chatId chat) 100)
      \<ge> maxCallsPerDay (chat_policy chat)
   \<Longrightarrow> notifyChats send tz now highPotential [chat] st = st"
  by (simp add: Let_def)

text \<open>
  The Telegram loop sends to the chat at hand only, and never a mint that occurs in the
  logs it read before the loop.
\<close>

lemma postToChat_skips_logged_mints:
  "d \<in> set (tg_dispatches (postToChat send now logs chat cs st)) \<Longrightarrow>
     d \<in> set (tg_dispatches st)
     \<or> (recipient d = chatId chat \<and> dispatched_mint d \<notin> set (map callCard_token_mint logs))"
proof (induction cs arbitrary: chat st)
  case Nil
  then show ?case by simp
next
  case (Cons c cs)
  show ?case
  proof (cases "mint (graduation c) \<in> set (map callCard_token_mint logs)")
    case True
    with Cons.prems have "d \<in> set (tg_dispatches (postToChat send now logs chat cs st))"
      by simp
    then show ?thesis by (rule Cons.IH)
  next
    case False
    show ?thesis
    proof (cases "send (chatId chat) c")
      case True
      with False Cons.prems Cons.IH show ?thesis
        by (fastforce simp add: Let_def)
    next
      case rejected: False
      with False Cons.prems Cons.IH show ?thesis
        by (fastforce simp add: Let_def)
    qed
  qed
qed

text \<open>
  Sending to one chat leaves the logs of the other chats as they are, so over a whole
  tick no chat is sent a mint that was among its 100 newest logs when the tick began.
\<close>

lemma postToChat_other_logs:
  "cid \<noteq> chatId chat \<Longrightarrow>
     tg_callLogs (tg_state (postToChat send now logs chat cs st)) cid
       = tg_callLogs (tg_state st) cid"
  by (induction cs arbitrary: chat st) (simp_all add: Let_def tg_addCallLog_def)

lemma notifyChat_step_other_logs:
  "cid \<noteq> chatId chat \<Longrightarrow>
     tg_callLogs (tg_state (notifyChats send tz now hp [chat] st)) cid
       = tg_callLogs (tg_state st) cid"
  by (simp add: Let_def postToChat_other_logs)

lemma notifyChat_step_dispatch:
  "d \<in> set (tg_dispatches (notifyChats send tz now hp [chat] st)) \<Longrightarrow>
     d \<in> set (tg_dispatches st)
     \<or> (recipient d = chatId chat
        \<and> dispatched_mint d \<notin> set (map callCard_token_mint
              (tg_getCallLogs (tg_callLogs (tg_state st)) (chatId chat) 100)))"
  by (auto simp add: Let_def split: if_splits dest: postToChat_skips_logged_mints)

lemma notifyChats_skips_logged_mints:
  "distinct (map chatId cs) \<Longrightarrow>
   d \<in> set (tg_dispatches (notifyChats send tz now hp cs st)) \<Longrightarrow>
     d \<in> set (tg_dispatches st)
     \<or> (recipient d \<in> set (map chatId cs)
        \<and> dispatched_mint d \<notin> set (map callCard_token_mint
              (tg_getCallLogs (tg_callLogs (tg_state st)) (recipient d) 100)))"
proof (induction cs arbitrary: st)
  case Nil
  then show ?case by simp
next
  case (Cons chat rest)
  let ?st1 = "notifyChats send tz now hp [chat] st"
  from Cons.prems have dist: "distinct (map chatId rest)"
    and fresh: "chatId chat \<notin> set (map chatId rest)"
    by simp_all
  from Cons.prems(2) have "d \<in> set (tg_dispatches (notifyChats send tz now hp rest ?st1))"
    by simp
  with Cons.IH [OF dist] consider
    (earlier) "d \<in> set (tg_dispatches ?st1)"
    | (later) "recipient d \<in> set (map chatId rest)"
        "dispatched_mint d \<notin> set (map callCard_token_mint
              (tg_getCallLogs (tg_callLogs (tg_state ?st1)) (recipient d) 100))"
    by blast
  then show ?case
  proof cases
    case earlier
    from notifyChat_step_dispatch [OF earlier] show ?thesis
      by auto
  next
    case later
    from later(1) fresh have "recipient d \<noteq> chatId chat"
      by auto
    then have "tg_callLogs (tg_state ?st1) (recipient d) = tg_callLogs (tg_state st) (recipient d)"
      by (rule notifyChat_step_other_logs)
    with later show ?thesis
      by (simp add: tg_getCallLogs_def)
  qed
qed

lemma TelegramAutopostService_skips_logged_mints:
  assumes "distinct (map chatId (chats s))"
    and "d \<in> set (tg_dispatches
            (TelegramAutopostService_scanAndNotify minScore send tz now helius pairs s))"
  shows "dispatched_mint d \<notin> set (map callCard_token_mint
            (tg_getCallLogs (tg_callLogs s) (recipient d) 100))"
proof -
  have dist: "distinct (map chatId (getActiveChats (chats s)))"
    using assms(1) unfolding getActiveChats_def by (rule distinct_map_filter)
  show ?thesis
  proof (cases "length (getActiveChats (chats s)) = 0")
    case True
    with assms(2) show ?thesis
      by (simp add: TelegramAutopostService_scanAndNotify_def)
  next
    case False
    with assms(2) notifyChats_skips_logged_mints [OF dist] show ?thesis
      by (fastforce simp add: TelegramAutopostService_scanAndNotify_def Let_def)
  qed
qed

subsection \<open>Two ticks evaluated\<close>

lemma example_candidate_facts:
  "passesFilter (scanCandidate example_now helius_down DEFAULT_GRADUATION_FILTER example_pair)"
  "score (scanCandidate example_now helius_down DEFAULT_GRADUATION_FILTER example_pair) = 10"
  "mint (graduation (scanCandidate example_now helius_down DEFAULT_GRADUATION_FILTER example_pair))
     = ''MintA''"
  "m_mint (metrics (scanCandidate example_now helius_down DEFAULT_GRADUATION_FILTER example_pair))
     = ''MintA''"
proof -
  let ?m = "pairToMetrics example_now example_pair
              \<lparr> holders := 100, topHolderConcentration := 25 \<rparr>"
  have s: "calculateScore example_pair ?m = 10"
    unfolding calculateScore_def Let_def
    by (simp add: or_num_def example_pair_def pairToMetrics_def example_now_def)
  have f: "applyFilter example_now example_pair ?m DEFAULT_GRADUATION_FILTER
             = \<lparr> passes = True, failures = [] \<rparr>"
    unfolding applyFilter_def Let_def
    by (simp add: or_num_def DEFAULT_GRADUATION_FILTER_def example_pair_def pairToMetrics_def
          example_now_def)
  show "passesFilter (scanCandidate example_now helius_down DEFAULT_GRADUATION_FILTER example_pair)"
    by (simp add: scanCandidate_def Let_def helius_down_results f)
  show "score (scanCandidate example_now helius_down DEFAULT_GRADUATION_FILTER example_pair) = 10"
    by (simp add: scanCandidate_def Let_def helius_down_results s)
  show "mint (graduation (scanCandidate example_now helius_down DEFAULT_GRADUATION_FILTER example_pair))
     = ''MintA''"
    by (simp add: scanCandidate_fields graduationOf_mint example_pair_def)
  show "m_mint (metrics (scanCandidate example_now helius_down DEFAULT_GRADUATION_FILTER example_pair))
     = ''MintA''"
    by (simp add: scanCandidate_def Let_def pairToMetrics_mint example_pair_def)
qed

lemma second_candidate_facts:
  "passesFilter (scanCandidate example_now helius_down DEFAULT_GRADUATION_FILTER second_pair)"
  "score (scanCandidate example_now helius_down DEFAULT_GRADUATION_FILTER second_pair) = 10"
  "mint (graduation (scanCandidate example_now helius_down DEFAULT_GRADUATION_FILTER second_pair))
     = ''MintB''"
  "m_mint (metrics (scanCandidate example_now helius_down DEFAULT_GRADUATION_FILTER second_pair))
     = ''MintB''"
proof -
  let ?m = "pairToMetrics example_now second_pair
              \<lparr> holders := 100, topHolderConcentration := 25 \<rparr>"
  have s: "calculateScore second_pair ?m = 10"
    unfolding calculateScore_def Let_def
    by (simp add: or_num_def example_pair_def second_pair_def pairToMetrics_def example_now_def)
  have f: "applyFilter example_now second_pair ?m DEFAULT_GRADUATION_FILTER
             = \<lparr> passes = True, failures = [] \<rparr>"
    unfolding applyFilter_def Let_def
    by (simp add: or_num_def DEFAULT_GRADUATION_FILTER_def example_pair_def second_pair_def
          pairToMetrics_def example_now_def)
  show "passesFilter (scanCandidate example_now helius_down DEFAULT_GRADUATION_FILTER second_pair)"
    by (simp add: scanCandidate_def Let_def helius_down_results f)
  show "score (scanCandidate example_now helius_down DEFAULT_GRADUATION_FILTER second_pair) = 10"
    by (simp add: scanCandidate_def Let_def helius_down_results s)
  show "mint (graduation (scanCandidate example_now helius_down DEFAULT_GRADUATION_FILTER second_pair))
     = ''MintB''"
    by (simp add: scanCandidate_fields graduationOf_mint second_pair_def)
  show "m_mint (metrics (scanCandidate example_now helius_down DEFAULT_GRADUATION_FILTER second_pair))
     = ''MintB''"
    by (simp add: scanCandidate_def Let_def pairToMetrics_mint second_pair_def)
qed

lemma example_clock:
  "toDateString 0 example_now = 0" "toDateString 0 300000 = 0" "getUTCHours example_now = 0"
  by (simp_all add: toDateString_def example_now_def getUTCHours_def)

text \<open>
  Claim C5 does not hold of the code. \<^verbatim>\<open>AutopostService.scanAndNotify\<close> never looks for
  the mint in the call log of the guild: with \<open>MintA\<close> logged for \<open>guild1\<close> five minutes
  ago and the pair still scoring high, the next tick sends \<open>MintA\<close> to \<open>guild1\<close> again.
\<close>

theorem AutopostService_reposts_logged_mint:
  "''MintA'' \<in> set (map callCard_token_mint (getCallLogs logged_MintA ''guild1''))
   \<and> dispatches
       (AutopostService_scanAndNotify 6.5 always_delivers 0 example_now helius_down
          [example_pair] [example_guild] logged_MintA)
     = [\<lparr> recipient = ''guild1'', dispatched_mint = ''MintA'', delivered = True \<rparr>]"
  by (simp add: AutopostService_scanAndNotify_def scanForGraduations_def
        example_candidate_facts Let_def example_guild_def example_policy_def isQuietHours_def
        callsToday_def getCallLogs_def logged_MintA_def no_logs_def example_clock
        always_delivers_def)

text \<open>
  Claim C6 does not hold of the code. The cap is compared once, before the loop over
  the candidates, and not again inside it. A recipient with a cap of 1 and no call today
  gets both candidates of one tick, in the Telegram service and in the Discord service
  alike; the second message is sent when the count has already reached the cap, and the
  log of the day ends with 2 entries.
\<close>

theorem daily_cap_exceeded_within_tick:
  "callsToday 0 example_now (tg_getCallLogs no_logs ''chat1'' 100) = 0
   \<and> maxCallsPerDay (chat_policy capped_chat) = 1
   \<and> tg_dispatches
       (TelegramAutopostService_scanAndNotify 6.5 always_delivers 0 example_now helius_down
          [example_pair, second_pair]
          \<lparr> seenTokens = [], chats = [capped_chat], tg_callLogs = no_logs \<rparr>)
     = [\<lparr> recipient = ''chat1'', dispatched_mint = ''MintA'', delivered = True \<rparr>,
        \<lparr> recipient = ''chat1'', dispatched_mint = ''MintB'', delivered = True \<rparr>]
   \<and> callsToday 0 example_now
       (tg_getCallLogs
          (tg_callLogs (tg_state
             (TelegramAutopostService_scanAndNotify 6.5 always_delivers 0 example_now
                helius_down [example_pair, second_pair]
                \<lparr> seenTokens = [], chats = [capped_chat], tg_callLogs = no_logs \<rparr>)))
          ''chat1'' 100) = 2
   \<and> dispatches
       (AutopostService_scanAndNotify 6.5 always_delivers 0 example_now helius_down
          [example_pair, second_pair] [capped_guild] no_logs)
     = [\<lparr> recipient = ''guild1'', dispatched_mint = ''MintA'', delivered = True \<rparr>,
        \<lparr> recipient = ''guild1'', dispatched_mint = ''MintB'', delivered = True \<rparr>]"
  by (simp add: TelegramAutopostService_scanAndNotify_def AutopostService_scanAndNotify_def
        scanForGraduations_def example_candidate_facts second_candidate_facts Let_def
        capped_chat_def capped_guild_def example_guild_def example_policy_def isQuietHours_def
        callsToday_def tg_getCallLogs_def getCallLogs_def getActiveChats_def no_logs_def
        example_clock always_delivers_def or_num_def tg_addCallLog_def addCallLog_def
        generateCallCard_token_mint_def)

end
